theory Spec2Isabelle
  imports Main
begin

section \<open>Data model (types.ts)\<close>

datatype CategoryId =
    project_details
  | env_safety
  | survey_inventory
  | site_recording
  | excavations
  | finds
  | condition_followup
  | additional_notes

datatype CategoryStatus = not_started | in_progress | complete

text \<open>
  A note. The source's field names \<open>id\<close>, \<open>text\<close> and \<open>notes\<close> clash with a HOL
  constant and with Isar keywords, so they carry a suffix here and in \<open>CategoryState\<close>.
  \<open>timestamp\<close> is a reading of \<open>Date.now()\<close>: milliseconds since the epoch, a natural
  number.
\<close>

record Note =
  id_note :: string
  text_note :: string
  timestamp :: nat

text \<open>
  The field \<open>data\<close> has the type \<open>any\<close> in the source; every value the program stores
  there is either the literal \<open>{}\<close> or comes out of \<open>JSON.parse\<close>, so it is a JSON value.
\<close>

datatype json =
    JNull
  | JBool bool
  | JNum int
  | JStr string
  | JArr "json list"
  | JObj "(string \<times> json) list"

record CategoryState =
  id_cat :: CategoryId
  title :: string
  status :: CategoryStatus
  notes_cat :: "Note list"
  data :: json
  missingInfo :: "string list"

text \<open>
  \<open>Record<CategoryId, CategoryState>\<close> has exactly the eight keys of \<open>CategoryId\<close>:
  a total function.
\<close>

record JobState =
  categories :: "CategoryId \<Rightarrow> CategoryState"
  isJobComplete :: bool

text \<open>
  \<open>Partial<CategoryState>\<close>: every field may be absent (\<open>None\<close>). A key that is
  present with the value \<open>undefined\<close> is not modelled: no caller passes one.
\<close>

record PartialCategoryState =
  id_upd :: "CategoryId option"
  title_upd :: "string option"
  status_upd :: "CategoryStatus option"
  notes_upd :: "Note list option"
  data_upd :: "json option"
  missingInfo_upd :: "string list option"

definition no_updates :: PartialCategoryState where
  "no_updates = \<lparr> id_upd = None, title_upd = None, status_upd = None,
                  notes_upd = None, data_upd = None, missingInfo_upd = None \<rparr>"

section \<open>Session controller (App)\<close>

definition initial_category :: "CategoryId \<Rightarrow> string \<Rightarrow> CategoryState" where
  "initial_category k t =
     \<lparr> id_cat = k, title = t, status = not_started, notes_cat = [], data = JObj [],
       missingInfo = [] \<rparr>"

fun initial_title :: "CategoryId \<Rightarrow> string" where
  "initial_title project_details = ''Project & Location''"
| "initial_title env_safety = ''Env & Safety Conditions''"
| "initial_title survey_inventory = ''Survey & Inventory''"
| "initial_title site_recording = ''Site Recording''"
| "initial_title excavations = ''Excavations''"
| "initial_title finds = ''Finds & Materials''"
| "initial_title condition_followup = ''Condition & Follow-up''"
| "initial_title additional_notes = ''Additional Notes''"

definition INITIAL_JOB_STATE :: JobState where
  "INITIAL_JOB_STATE =
     \<lparr> categories = (\<lambda>k. initial_category k (initial_title k)),
       isJobComplete = False \<rparr>"

text \<open>
  The object spread \<open>{ ...c, ...updates }\<close>: a field present in \<open>updates\<close> wins,
  every other field is the one of \<open>c\<close>.
\<close>

definition spread :: "CategoryState \<Rightarrow> PartialCategoryState \<Rightarrow> CategoryState" where
  "spread c u =
     \<lparr> id_cat = (case id_upd u of None \<Rightarrow> id_cat c | Some v \<Rightarrow> v),
       title = (case title_upd u of None \<Rightarrow> title c | Some v \<Rightarrow> v),
       status = (case status_upd u of None \<Rightarrow> status c | Some v \<Rightarrow> v),
       notes_cat = (case notes_upd u of None \<Rightarrow> notes_cat c | Some v \<Rightarrow> v),
       data = (case data_upd u of None \<Rightarrow> data c | Some v \<Rightarrow> v),
       missingInfo = (case missingInfo_upd u of None \<Rightarrow> missingInfo c | Some v \<Rightarrow> v) \<rparr>"

text \<open>
  \<open>handleUpdateCategory\<close>: the state updater given to \<open>setJobState\<close>. The new job state
  is \<open>{ ...prev, categories: { ...prev.categories, [id]: newCategoryState } }\<close>.
\<close>

definition handleUpdateCategory ::
  "CategoryId \<Rightarrow> PartialCategoryState \<Rightarrow> JobState \<Rightarrow> JobState" where
  "handleUpdateCategory k updates prev =
     (let newCategoryState = spread (categories prev k) updates
      in prev \<lparr> categories := (categories prev)(k := newCategoryState) \<rparr>)"

section \<open>Inference gateway (services/aiService)\<close>

subsection \<open>Strings\<close>

text \<open>
  \<open>String.prototype.toLowerCase\<close> and \<open>String.prototype.includes\<close>, on the ASCII
  strings the error messages and the search keys are made of.
\<close>

definition toLowerCase_char :: "char \<Rightarrow> char" where
  "toLowerCase_char c =
     (let n = (of_char c :: nat) in if 65 \<le> n \<and> n \<le> 90 then char_of (n + 32) else c)"

definition toLowerCase :: "string \<Rightarrow> string" where
  "toLowerCase s = map toLowerCase_char s"

fun startsWith :: "string \<Rightarrow> string \<Rightarrow> bool" where
  "startsWith s [] = True"
| "startsWith [] (p # ps) = False"
| "startsWith (c # cs) (p # ps) = (c = p \<and> startsWith cs ps)"

fun includes_str :: "string \<Rightarrow> string \<Rightarrow> bool" where
  "includes_str [] sub = (sub = [])"
| "includes_str (c # cs) sub = (startsWith (c # cs) sub \<or> includes_str cs sub)"

subsection \<open>Errors\<close>

text \<open>
  What the code reads of a thrown value: \<open>error?.error?.message\<close>, \<open>error?.message\<close>,
  \<open>error?.error?.code\<close> and, as the last resort of \<open>handleAIError\<close>,
  \<open>JSON.stringify(error)\<close>. \<open>None\<close> is \<open>undefined\<close>.
\<close>

record ApiError =
  error_message :: "string option"
  message :: "string option"
  error_code :: "int option"
  stringified :: string

text \<open>\<open>new Error(m)\<close>: only \<open>message\<close> is set, and \<open>JSON.stringify\<close> gives \<open>{}\<close>.\<close>

definition js_Error :: "string \<Rightarrow> ApiError" where
  "js_Error m =
     \<lparr> error_message = None, message = Some m, error_code = None, stringified = ''{}'' \<rparr>"

text \<open>Truthiness of an optional string: \<open>undefined\<close> and the empty string are falsy.\<close>

fun truthy :: "string option \<Rightarrow> string option" where
  "truthy (Some (c # cs)) = Some (c # cs)"
| "truthy (Some []) = None"
| "truthy None = None"

definition first_message :: "ApiError \<Rightarrow> string option" where
  "first_message e =
     (case truthy (error_message e) of
        Some m \<Rightarrow> Some m
      | None \<Rightarrow> truthy (message e))"

text \<open>
  The three messages that \<open>handleAIError\<close> throws: "System Busy (Quota Exceeded). We
  are retrying, but if this persists, please wait 60 seconds.", "Network Error. Please
  check your internet connection." and "AI Processing Failed. Please try again.".
\<close>

datatype UserError = SystemBusy | NetworkError | ProcessingFailed

definition handleAIError :: "ApiError \<Rightarrow> UserError" where
  "handleAIError e =
     (let msg = toLowerCase (case first_message e of Some m \<Rightarrow> m | None \<Rightarrow> stringified e);
          isQuota = (includes_str msg ''quota'' \<or> includes_str msg ''429''
                     \<or> includes_str msg ''resource_exhausted''
                     \<or> includes_str msg ''resource has been exhausted''
                     \<or> error_code e = Some 429)
      in if isQuota then SystemBusy
         else if includes_str msg ''network'' \<or> includes_str msg ''fetch'' then NetworkError
         else ProcessingFailed)"

subsection \<open>Retry wrapper\<close>

text \<open>The test of \<open>callWithRetry\<close> for a quota or rate-limit error.\<close>

definition isRateLimit :: "ApiError \<Rightarrow> bool" where
  "isRateLimit e =
     (let msg = toLowerCase (case first_message e of Some m \<Rightarrow> m | None \<Rightarrow> [])
      in includes_str msg ''429'' \<or> includes_str msg ''quota'' \<or> error_code e = Some 429)"

text \<open>
  A run of a gateway call: what it returned or threw, how many times the backend was
  called, and the delays (in milliseconds) it waited between the calls, in order.
\<close>

record ('e, 'a) Run =
  outcome :: "'e + 'a"
  attempts :: nat
  delays :: "nat list"

text \<open>
  \<open>callWithRetry(fn, retries)\<close>. The argument \<open>fn\<close> is a closure that calls the
  backend; \<open>fn i\<close> is what its call number \<open>i\<close> (from 0) resolves to (\<open>Inr\<close>) or
  rejects with (\<open>Inl\<close>). Every iteration of the loop makes exactly one call, so the loop
  counter is the call number. The loop is \<open>callWithRetry_from\<close>, started at \<open>i = 0\<close>.
\<close>

function callWithRetry_from ::
  "(nat \<Rightarrow> ApiError + 'a) \<Rightarrow> nat \<Rightarrow> nat \<Rightarrow> nat list \<Rightarrow> (ApiError, 'a) Run" where
  "callWithRetry_from fn retries i ds =
     (if i < retries then
        (case fn i of
           Inr v \<Rightarrow> \<lparr> outcome = Inr v, attempts = i + 1, delays = ds \<rparr>
         | Inl error \<Rightarrow>
             if isRateLimit error \<and> i < retries - 1
             then callWithRetry_from fn retries (i + 1) (ds @ [1000 * 2 ^ i])
             else \<lparr> outcome = Inl error, attempts = i + 1, delays = ds \<rparr>)
      else \<lparr> outcome = Inl (js_Error ''Max retries exceeded''), attempts = i, delays = ds \<rparr>)"
  by pat_completeness auto
termination
  by (relation "measure (\<lambda>(fn, retries, i, ds). retries - i)") auto

definition callWithRetry :: "(nat \<Rightarrow> ApiError + 'a) \<Rightarrow> nat \<Rightarrow> (ApiError, 'a) Run" where
  "callWithRetry fn retries = callWithRetry_from fn retries 0 []"

subsection \<open>The gateway operations\<close>

text \<open>
  A request to the backend carries what the code puts into the prompt and the parts;
  the validation criteria and the response schema sent along are functions of the
  category id. (\<open>currentNotes\<close> is a parameter of both extraction functions and is used
  by neither.)
\<close>

datatype Request =
    VoiceRequest string string CategoryId json
  | TextRequest string CategoryId json
  | ValidateRequest CategoryId json
  | ReportRequest "CategoryId \<Rightarrow> CategoryState" string

text \<open>The response: its \<open>text\<close>, which may be \<open>undefined\<close>.\<close>

type_synonym Response = "string option"

text \<open>The backend client: the outcome of call number \<open>i\<close> with a given request.\<close>

type_synonym Backend = "Request \<Rightarrow> nat \<Rightarrow> ApiError + Response"

record ExtractResult =
  transcript :: string
  updatedData :: json

record ValidateResult =
  isComplete :: bool
  missingInfo_res :: "string list"

record FieldReport =
  project_meta :: json
  env_safety_rep :: json
  survey_inventory_rep :: json
  site_recording_rep :: json
  excavations_rep :: json
  finds_rep :: json
  condition_assessment :: json
  daily_log :: json

text \<open>
  The body shared by the four exported functions:
  \<^verbatim>\<open>try { const response = await callWithRetry(() => ai.models.generateContent(req));
        if (!response.text) throw new Error(m);
        return JSON.parse(response.text);
      } catch (error) { handleAIError(error); }\<close>
  \<open>JSON.parse\<close> is the parameter \<open>parse\<close>: it returns the parsed value, read at the type
  the function declares, or throws.
\<close>

definition gateway_call ::
  "(nat \<Rightarrow> ApiError + Response) \<Rightarrow> string \<Rightarrow> (string \<Rightarrow> ApiError + 'r)
     \<Rightarrow> (UserError, 'r) Run" where
  "gateway_call fn m parse =
     (let r = callWithRetry fn 3;
          res = (case outcome r of
                   Inl error \<Rightarrow> Inl (handleAIError error)
                 | Inr response \<Rightarrow>
                     (case truthy response of
                        None \<Rightarrow> Inl (handleAIError (js_Error m))
                      | Some t \<Rightarrow>
                          (case parse t of
                             Inl error \<Rightarrow> Inl (handleAIError error)
                           | Inr v \<Rightarrow> Inr v)))
      in \<lparr> outcome = res, attempts = attempts r, delays = delays r \<rparr>)"

definition processVoiceNote ::
  "Backend \<Rightarrow> (string \<Rightarrow> ApiError + ExtractResult) \<Rightarrow> string \<Rightarrow> string \<Rightarrow> CategoryId
     \<Rightarrow> string list \<Rightarrow> json \<Rightarrow> (UserError, ExtractResult) Run" where
  "processVoiceNote ai parse audioBase64 mimeType categoryId currentNotes currentData =
     gateway_call (ai (VoiceRequest audioBase64 mimeType categoryId currentData))
       ''No response from AI'' parse"

definition processTextNote ::
  "Backend \<Rightarrow> (string \<Rightarrow> ApiError + ExtractResult) \<Rightarrow> string \<Rightarrow> CategoryId
     \<Rightarrow> string list \<Rightarrow> json \<Rightarrow> (UserError, ExtractResult) Run" where
  "processTextNote ai parse text categoryId currentNotes currentData =
     gateway_call (ai (TextRequest text categoryId currentData))
       ''No response from AI'' parse"

definition validateCategory ::
  "Backend \<Rightarrow> (string \<Rightarrow> ApiError + ValidateResult) \<Rightarrow> CategoryId \<Rightarrow> json
     \<Rightarrow> (UserError, ValidateResult) Run" where
  "validateCategory ai parse categoryId d =
     gateway_call (ai (ValidateRequest categoryId d)) ''Validation failed'' parse"

text \<open>\<open>Array.prototype.join('\n')\<close>.\<close>

fun join_lines :: "string list \<Rightarrow> string" where
  "join_lines [] = []"
| "join_lines [x] = x"
| "join_lines (x # y # ys) = x @ [CHR 0x0A] @ join_lines (y # ys)"

definition report_request :: "JobState \<Rightarrow> Request" where
  "report_request jobState =
     (let additionalNotes =
            (case truthy (Some (join_lines
                    (map text_note (notes_cat (categories jobState additional_notes))))) of
               Some t \<Rightarrow> t
             | None \<Rightarrow> ''None'')
      in ReportRequest (categories jobState) additionalNotes)"

definition generateFinalJobReport ::
  "Backend \<Rightarrow> (string \<Rightarrow> ApiError + FieldReport) \<Rightarrow> JobState
     \<Rightarrow> (UserError, FieldReport) Run" where
  "generateFinalJobReport ai parse jobState =
     gateway_call (ai (report_request jobState)) ''Report generation failed'' parse"

section \<open>Category view (components/CategoryView)\<close>

text \<open>
  \<open>Number.prototype.toString\<close> on a clock reading: its decimal digits.
\<close>

definition digit_char :: "nat \<Rightarrow> char" where
  "digit_char d = char_of (48 + d)"

function toString :: "nat \<Rightarrow> string" where
  "toString n =
     (if n < 10 then [digit_char n] else toString (n div 10) @ [digit_char (n mod 10)])"
  by pat_completeness auto
termination
  by (relation "measure (\<lambda>n. n)") auto

text \<open>
  \<open>String.prototype.trim\<close> strips white space and line terminators from both ends. A
  \<open>char\<close> is a code unit from 0 to 255; there the characters that \<open>trim\<close> strips are
  TAB, LF, VT, FF and CR (9 to 13), the space (32) and the no-break space U+00A0 (160).
  The others (U+1680, U+2000 to U+200A, U+2028, U+2029, U+202F, U+205F, U+3000, U+FEFF)
  lie above 255 and are no values of \<open>char\<close>.
\<close>

definition isWhiteSpace :: "char \<Rightarrow> bool" where
  "isWhiteSpace c =
     (let n = (of_char c :: nat) in (9 \<le> n \<and> n \<le> 13) \<or> n = 32 \<or> n = 160)"

definition trim :: "string \<Rightarrow> string" where
  "trim s = rev (dropWhile isWhiteSpace (rev (dropWhile isWhiteSpace s)))"

text \<open>
  What a handler leaves behind: the job state after its calls of \<open>onUpdate\<close> (which is
  \<open>handleUpdateCategory\<close>), the dialog it raised with \<open>alert\<close>, if any, and the number of
  calls it made to the backend. A handler reads \<open>category\<close>, the property the view was
  rendered with; the local flags of the view (\<open>isProcessing\<close>, \<open>isValidating\<close>, the
  text modal) and \<open>onBack\<close> do not touch the job state and are left out. In
  \<open>handleAudioProcess\<close> the recorded blob is taken as already converted to base64.
\<close>

datatype Alert = NoSpeechDetected | Failed UserError

record HandlerResult =
  job :: JobState
  alert :: "Alert option"
  calls :: nat

text \<open>
  \<open>addNote\<close>. \<open>Date.now()\<close> is read twice, for the id and for the timestamp: the two
  readings are the arguments \<open>now1\<close> and \<open>now2\<close>.
\<close>

definition addNote ::
  "nat \<Rightarrow> nat \<Rightarrow> CategoryState \<Rightarrow> string \<Rightarrow> json \<Rightarrow> JobState \<Rightarrow> JobState" where
  "addNote now1 now2 category t updatedData' s =
     (let newNote = \<lparr> id_note = toString now1, text_note = t, timestamp = now2 \<rparr>
      in handleUpdateCategory (id_cat category)
           (no_updates \<lparr> notes_upd := Some (notes_cat category @ [newNote]),
                         data_upd := Some updatedData',
                         status_upd := Some in_progress \<rparr>) s)"

definition handleAudioProcess ::
  "Backend \<Rightarrow> (string \<Rightarrow> ApiError + ExtractResult) \<Rightarrow> nat \<Rightarrow> nat \<Rightarrow> string \<Rightarrow> string
     \<Rightarrow> CategoryState \<Rightarrow> JobState \<Rightarrow> HandlerResult" where
  "handleAudioProcess ai parse now1 now2 base64 mimeType category s =
     (let currentNotesText = map text_note (notes_cat category);
          r = processVoiceNote ai parse base64 mimeType (id_cat category) currentNotesText
                (data category)
      in case outcome r of
           Inl e \<Rightarrow> \<lparr> job = s, alert = Some (Failed e), calls = attempts r \<rparr>
         | Inr result \<Rightarrow>
             if transcript result = ''NO_SPEECH_DETECTED''
             then \<lparr> job = s, alert = Some NoSpeechDetected, calls = attempts r \<rparr>
             else \<lparr> job = addNote now1 now2 category (transcript result)
                           (updatedData result) s,
                    alert = None, calls = attempts r \<rparr>)"

definition handleTextSubmit ::
  "Backend \<Rightarrow> (string \<Rightarrow> ApiError + ExtractResult) \<Rightarrow> nat \<Rightarrow> nat \<Rightarrow> string
     \<Rightarrow> CategoryState \<Rightarrow> JobState \<Rightarrow> HandlerResult" where
  "handleTextSubmit ai parse now1 now2 textInput category s =
     (if trim textInput = [] then \<lparr> job = s, alert = None, calls = 0 \<rparr>
      else
        let currentNotesText = map text_note (notes_cat category);
            r = processTextNote ai parse textInput (id_cat category) currentNotesText
                  (data category)
        in case outcome r of
             Inl e \<Rightarrow> \<lparr> job = s, alert = Some (Failed e), calls = attempts r \<rparr>
           | Inr result \<Rightarrow>
               \<lparr> job = addNote now1 now2 category (transcript result)
                         (updatedData result) s,
                 alert = None, calls = attempts r \<rparr>)"

text \<open>
  \<open>handleDeleteNote\<close>; \<open>confirmed\<close> is the answer to \<open>window.confirm\<close>. The update
  spreads the whole \<open>category\<close> and overrides \<open>notes\<close> and \<open>status\<close>. The handler has
  no \<open>alert\<close>, no \<open>throw\<close> and no return value.
\<close>

definition handleDeleteNote ::
  "bool \<Rightarrow> string \<Rightarrow> CategoryState \<Rightarrow> JobState \<Rightarrow> HandlerResult" where
  "handleDeleteNote confirmed noteId category s =
     (if confirmed then
        let updatedNotes = filter (\<lambda>note. id_note note \<noteq> noteId) (notes_cat category)
        in \<lparr> job = handleUpdateCategory (id_cat category)
                     \<lparr> id_upd = Some (id_cat category),
                       title_upd = Some (title category),
                       status_upd = Some (if length updatedNotes = 0
                                            \<and> status category \<noteq> complete
                                          then not_started else status category),
                       notes_upd = Some updatedNotes,
                       data_upd = Some (data category),
                       missingInfo_upd = Some (missingInfo category) \<rparr> s,
               alert = None, calls = 0 \<rparr>
      else \<lparr> job = s, alert = None, calls = 0 \<rparr>)"

definition handleFinalize ::
  "Backend \<Rightarrow> (string \<Rightarrow> ApiError + ValidateResult) \<Rightarrow> CategoryState \<Rightarrow> JobState
     \<Rightarrow> HandlerResult" where
  "handleFinalize ai parse category s =
     (let r = validateCategory ai parse (id_cat category) (data category)
      in case outcome r of
           Inl e \<Rightarrow> \<lparr> job = s, alert = Some (Failed e), calls = attempts r \<rparr>
         | Inr result \<Rightarrow>
             if isComplete result
             then \<lparr> job = handleUpdateCategory (id_cat category)
                           (no_updates \<lparr> status_upd := Some complete,
                                         missingInfo_upd := Some [] \<rparr>) s,
                    alert = None, calls = attempts r \<rparr>
             else \<lparr> job = handleUpdateCategory (id_cat category)
                           (no_updates \<lparr> missingInfo_upd := Some (missingInfo_res result) \<rparr>) s,
                    alert = None, calls = attempts r \<rparr>)"

text \<open>
  The Finalize button: its \<open>disabled\<close> attribute, and a click on it. A click on a
  disabled button runs no handler.
\<close>

definition finalize_disabled :: "CategoryState \<Rightarrow> bool \<Rightarrow> bool \<Rightarrow> bool" where
  "finalize_disabled category isProcessing isValidating =
     (let isAdditionalNotes = (id_cat category = additional_notes)
      in (\<not> isAdditionalNotes \<and> length (notes_cat category) = 0)
         \<or> isProcessing \<or> isValidating)"

definition click_finalize ::
  "Backend \<Rightarrow> (string \<Rightarrow> ApiError + ValidateResult) \<Rightarrow> bool \<Rightarrow> bool \<Rightarrow> CategoryState
     \<Rightarrow> JobState \<Rightarrow> HandlerResult" where
  "click_finalize ai parse isProcessing isValidating category s =
     (if finalize_disabled category isProcessing isValidating
      then \<lparr> job = s, alert = None, calls = 0 \<rparr>
      else handleFinalize ai parse category s)"

section \<open>Dashboard (components/Dashboard)\<close>

text \<open>\<open>Object.values(jobState.categories)\<close>: the values in the order of the keys.\<close>

definition category_ids :: "CategoryId list" where
  "category_ids =
     [project_details, env_safety, survey_inventory, site_recording, excavations, finds,
      condition_followup, additional_notes]"

definition allComplete :: "JobState \<Rightarrow> bool" where
  "allComplete jobState =
     (let cats = map (categories jobState) category_ids;
          requiredCategories = filter (\<lambda>c. id_cat c \<noteq> additional_notes) cats
      in list_all (\<lambda>c. status c = complete) requiredCategories)"

section \<open>Sessions\<close>

text \<open>
  What the user can do in the view of a category: submit a text note, release the record
  button (the recorded audio is then processed), delete a note, click Finalize. Each
  event carries what the environment answers while it is handled: the backend, the JSON
  parser, the clock readings, the answer to the confirmation dialog. The view of category
  \<open>a\<close> is rendered with \<open>jobState.categories[a]\<close>, and between two events no call is
  pending, so both flags of the Finalize button are false.
\<close>

datatype Event =
    TextSubmit Backend "string \<Rightarrow> ApiError + ExtractResult" nat nat string
  | AudioProcess Backend "string \<Rightarrow> ApiError + ExtractResult" nat nat string string
  | DeleteNote bool string
  | FinalizeClick Backend "string \<Rightarrow> ApiError + ValidateResult"

fun handle :: "Event \<Rightarrow> CategoryState \<Rightarrow> JobState \<Rightarrow> HandlerResult" where
  "handle (TextSubmit ai parse now1 now2 textInput) category s =
     handleTextSubmit ai parse now1 now2 textInput category s"
| "handle (AudioProcess ai parse now1 now2 base64 mimeType) category s =
     handleAudioProcess ai parse now1 now2 base64 mimeType category s"
| "handle (DeleteNote confirmed noteId) category s =
     handleDeleteNote confirmed noteId category s"
| "handle (FinalizeClick ai parse) category s =
     click_finalize ai parse False False category s"

definition step :: "JobState \<Rightarrow> CategoryId \<Rightarrow> Event \<Rightarrow> JobState" where
  "step s a ev = job (handle ev (categories s a) s)"

inductive reachable :: "JobState \<Rightarrow> bool" where
  reachable_init: "reachable INITIAL_JOB_STATE"
| reachable_step: "reachable s \<Longrightarrow> reachable (step s a ev)"

section \<open>Stated properties and stubs\<close>

text \<open>
  The retry law of a gateway operation that calls the backend through the closure \<open>fn\<close>,
  reads the body with \<open>parse\<close> and ends in the run \<open>r\<close>: two rate-limit failures and
  then a success give the parsed value at the third call, after waits of 1000 and 2000
  milliseconds; no run makes more than three calls; and a failure that is not a
  rate-limit error ends the run at the call that met it.
\<close>

definition retry_law ::
  "(nat \<Rightarrow> ApiError + Response) \<Rightarrow> (string \<Rightarrow> ApiError + 'r) \<Rightarrow> (UserError, 'r) Run
     \<Rightarrow> bool" where
  "retry_law fn parse r \<longleftrightarrow>
     (\<forall>e0 e1 t v.
        fn 0 = Inl e0 \<and> isRateLimit e0 \<and> fn 1 = Inl e1 \<and> isRateLimit e1
        \<and> fn 2 = Inr (Some t) \<and> t \<noteq> [] \<and> parse t = Inr v
        \<longrightarrow> outcome r = Inr v \<and> attempts r = 3 \<and> delays r = [1000, 2000])
   \<and> attempts r \<le> 3
   \<and> (\<forall>k e.
        k < 3 \<and> (\<forall>j<k. \<exists>e'. fn j = Inl e' \<and> isRateLimit e') \<and> fn k = Inl e
        \<and> \<not> isRateLimit e
        \<longrightarrow> outcome r = Inl (handleAIError e) \<and> attempts r = k + 1)"

text \<open>Backend stubs: busy twice and then answering; and unreachable.\<close>

definition busy_twice :: Backend where
  "busy_twice req i =
     (if i < 2 then Inl (js_Error ''429 Too Many Requests'') else Inr (Some ''{}''))"

definition offline :: Backend where
  "offline req i = Inl (js_Error ''Failed to fetch'')"

definition answering :: Backend where
  "answering req i = Inr (Some ''{}'')"

text \<open>Parser stubs: the body read as a fixed validation or extraction result.\<close>

definition parse_complete :: "string \<Rightarrow> ApiError + ValidateResult" where
  "parse_complete t = Inr \<lparr> isComplete = True, missingInfo_res = [] \<rparr>"


definition parse_flake :: "string \<Rightarrow> ApiError + ExtractResult" where
  "parse_flake t =
     Inr \<lparr> transcript = ''Found one obsidian flake'',
           updatedData = JObj [(''item_type'', JStr ''lithic''), (''quantity'', JStr ''1'')] \<rparr>"

definition parse_silence :: "string \<Rightarrow> ApiError + ExtractResult" where
  "parse_silence t = Inr \<lparr> transcript = ''NO_SPEECH_DETECTED'', updatedData = JObj [] \<rparr>"

section \<open>Invariants and sample sessions\<close>

text \<open>Every category is stored under its own id.\<close>

definition ids_ok :: "JobState \<Rightarrow> bool" where
  "ids_ok s \<longleftrightarrow> (\<forall>k. id_cat (categories s k) = k)"


text \<open>A category not yet started has no notes, and one in progress has some.\<close>

definition notes_match_status :: "CategoryState \<Rightarrow> bool" where
  "notes_match_status c \<longleftrightarrow>
     (status c = not_started \<longrightarrow> notes_cat c = [])
     \<and> (status c = in_progress \<longrightarrow> notes_cat c \<noteq> [])"

text \<open>
  Sessions on the category \<open>finds\<close>, from the initial state: a text note taken at the
  clock reading 1000; then that note deleted; or the category finalized, and finalized
  once more with a validation that reports a missing item; or a second note taken at the
  same clock reading.
\<close>

definition flake_note :: Note where
  "flake_note =
     \<lparr> id_note = ''1000'', text_note = ''Found one obsidian flake'', timestamp = 1000 \<rparr>"

definition flake_data :: json where
  "flake_data = JObj [(''item_type'', JStr ''lithic''), (''quantity'', JStr ''1'')]"

definition flake_noted :: JobState where
  "flake_noted =
     step INITIAL_JOB_STATE finds
       (TextSubmit answering parse_flake 1000 1000 ''Found one obsidian flake'')"

definition flake_deleted :: JobState where
  "flake_deleted = step flake_noted finds (DeleteNote True ''1000'')"

definition flake_finalized :: JobState where
  "flake_finalized = step flake_noted finds (FinalizeClick answering parse_complete)"


definition flake_noted_twice :: JobState where
  "flake_noted_twice =
     step flake_noted finds (TextSubmit answering parse_flake 1000 1000 ''Second note'')"

text \<open>
  Job states made with \<open>handleUpdateCategory\<close> alone: the seven required categories
  marked complete; and \<open>finds\<close> set to \<open>in_progress\<close> with no note.
\<close>

definition mark_complete :: "CategoryId \<Rightarrow> JobState \<Rightarrow> JobState" where
  "mark_complete k =
     handleUpdateCategory k
       (no_updates \<lparr> status_upd := Some complete, missingInfo_upd := Some [] \<rparr>)"

definition required_done :: JobState where
  "required_done =
     foldr mark_complete
       [project_details, env_safety, survey_inventory, site_recording, excavations, finds,
        condition_followup]
       INITIAL_JOB_STATE"

definition stalled :: JobState where
  "stalled =
     handleUpdateCategory finds (no_updates \<lparr> status_upd := Some in_progress \<rparr>)
       INITIAL_JOB_STATE"

section \<open>Retry law\<close>

declare callWithRetry_from.simps [simp del]

lemma callWithRetry_from_attempts:
  "i \<le> retries \<Longrightarrow> attempts (callWithRetry_from fn retries i ds) \<le> retries"
proof (induction fn retries i ds rule: callWithRetry_from.induct)
  case (1 fn retries i ds)
  show ?case
  proof (cases "i < retries")
    case False
    then show ?thesis
      using "1.prems" by (subst callWithRetry_from.simps) simp
  next
    case True
    show ?thesis
    proof (cases "fn i")
      case (Inr v)
      with True show ?thesis
        by (simp add: callWithRetry_from.simps [of fn retries i ds])
    next
      case (Inl error)
      show ?thesis
      proof (cases "isRateLimit error \<and> i < retries - 1")
        case False
        with True Inl show ?thesis
          by (auto simp add: callWithRetry_from.simps [of fn retries i ds])
      next
        case again: True
        with True Inl "1.IH" [of error] show ?thesis
          by (simp add: callWithRetry_from.simps [of fn retries i ds])
      qed
    qed
  qed
qed

text \<open>Rate-limit failures at the calls \<open>i, ..., i + n - 1\<close> are all retried.\<close>

lemma callWithRetry_from_skip:
  "(\<forall>j. i \<le> j \<and> j < i + n \<longrightarrow> (\<exists>e. fn j = Inl e \<and> isRateLimit e)) \<Longrightarrow>
   i + n < retries \<Longrightarrow>
   callWithRetry_from fn retries i ds
     = callWithRetry_from fn retries (i + n) (ds @ map (\<lambda>j. 1000 * 2 ^ j) [i ..< i + n])"
proof (induction n arbitrary: i ds)
  case 0
  show ?case by simp
next
  case (Suc n)
  from Suc.prems obtain e where e: "fn i = Inl e" "isRateLimit e"
    by (auto dest: spec [of _ i])
  have first: "callWithRetry_from fn retries i ds
                = callWithRetry_from fn retries (i + 1) (ds @ [1000 * 2 ^ i])"
    using e Suc.prems(2) by (simp add: callWithRetry_from.simps [of fn retries i ds])
  have "callWithRetry_from fn retries (i + 1) (ds @ [1000 * 2 ^ i])
          = callWithRetry_from fn retries ((i + 1) + n)
              ((ds @ [1000 * 2 ^ i]) @ map (\<lambda>j. 1000 * 2 ^ j) [i + 1 ..< (i + 1) + n])"
    using Suc.prems by (intro Suc.IH) auto
  moreover have "[i ..< i + Suc n] = i # [i + 1 ..< (i + 1) + n]"
    by (simp add: upt_conv_Cons del: upt_Suc)
  ultimately show ?case
    using first by (simp del: upt_Suc)
qed

lemma callWithRetry_ok_at:
  assumes "\<forall>j < k. \<exists>e. fn j = Inl e \<and> isRateLimit e" "k < retries" "fn k = Inr v"
  shows "callWithRetry fn retries
           = \<lparr> outcome = Inr v, attempts = k + 1,
               delays = map (\<lambda>j. 1000 * 2 ^ j) [0 ..< k] \<rparr>"
  using assms callWithRetry_from_skip [of 0 k fn retries "[]"]
  by (simp add: callWithRetry_def callWithRetry_from.simps [of fn retries k])

lemma callWithRetry_throw_at:
  assumes "\<forall>j < k. \<exists>e. fn j = Inl e \<and> isRateLimit e" "k < retries" "fn k = Inl e"
    "\<not> isRateLimit e"
  shows "callWithRetry fn retries
           = \<lparr> outcome = Inl e, attempts = k + 1,
               delays = map (\<lambda>j. 1000 * 2 ^ j) [0 ..< k] \<rparr>"
  using assms callWithRetry_from_skip [of 0 k fn retries "[]"]
  by (simp add: callWithRetry_def callWithRetry_from.simps [of fn retries k])

lemma truthy_Some: "t \<noteq> [] \<Longrightarrow> truthy (Some t) = Some t"
  by (cases t) simp_all

lemma gateway_call_retry_law: "retry_law fn parse (gateway_call fn m parse)"
proof -
  have a: "attempts (gateway_call fn m parse) \<le> 3"
    using callWithRetry_from_attempts [of 0 3 fn "[]"]
    by (simp add: gateway_call_def callWithRetry_def Let_def)
  have b: "outcome (gateway_call fn m parse) = Inr v
           \<and> attempts (gateway_call fn m parse) = 3
           \<and> delays (gateway_call fn m parse) = [1000, 2000]"
    if "fn 0 = Inl e0" "isRateLimit e0" "fn 1 = Inl e1" "isRateLimit e1"
       "fn 2 = Inr (Some t)" "t \<noteq> []" "parse t = Inr v" for e0 e1 t v
  proof -
    have "\<forall>j<2. \<exists>e. fn j = Inl e \<and> isRateLimit e"
      using that by (auto simp: less_2_cases_iff)
    then have "callWithRetry fn 3
                 = \<lparr> outcome = Inr (Some t), attempts = 2 + 1,
                     delays = map (\<lambda>j. 1000 * 2 ^ j) [0 ..< 2] \<rparr>"
      using that(5) by (intro callWithRetry_ok_at) simp_all
    moreover have "map (\<lambda>j. 1000 * 2 ^ j) [0 ..< 2] = [1000, 2000 :: nat]"
      by (simp add: upt_conv_Cons)
    ultimately show ?thesis
      using that(6,7) by (simp add: gateway_call_def Let_def truthy_Some)
  qed
  have c: "outcome (gateway_call fn m parse) = Inl (handleAIError e)
           \<and> attempts (gateway_call fn m parse) = k + 1"
    if "k < 3" "\<forall>j<k. \<exists>e'. fn j = Inl e' \<and> isRateLimit e'" "fn k = Inl e"
       "\<not> isRateLimit e" for k e
    using callWithRetry_throw_at [OF that(2) that(1) that(3) that(4)]
    by (simp add: gateway_call_def Let_def)
  from a b c show ?thesis
    unfolding retry_law_def by blast
qed

lemma isRateLimit_429: "isRateLimit (js_Error ''429 Too Many Requests'')"
  by (simp add: isRateLimit_def js_Error_def first_message_def toLowerCase_def
      toLowerCase_char_def)

lemma not_isRateLimit_fetch: "\<not> isRateLimit (js_Error ''Failed to fetch'')"
  by (simp add: isRateLimit_def js_Error_def first_message_def toLowerCase_def
      toLowerCase_char_def)

lemma handleAIError_fetch: "handleAIError (js_Error ''Failed to fetch'') = NetworkError"
  by (simp add: handleAIError_def js_Error_def first_message_def toLowerCase_def
      toLowerCase_char_def)

text \<open>
  C2. Each gateway operation (extraction from voice and from text, validation,
  aggregation) obeys the retry law: when the backend fails with a rate-limit error at
  the first two calls and answers at the third, the operation returns the parsed answer
  at the third call, having waited 1000 and then 2000 milliseconds; it never makes more
  than three calls; and an error that is not a rate-limit error is surfaced at the call
  that met it, with no further call. A rate-limit error is what \<open>callWithRetry\<close> tests:
  \<open>isRateLimit\<close>.
\<close>

theorem gateway_retry_law:
  "retry_law (ai (VoiceRequest audioBase64 mimeType categoryId currentData)) parseE
     (processVoiceNote ai parseE audioBase64 mimeType categoryId currentNotes currentData)
   \<and> retry_law (ai (TextRequest textInput categoryId currentData)) parseE
       (processTextNote ai parseE textInput categoryId currentNotes currentData)
   \<and> retry_law (ai (ValidateRequest categoryId d)) parseV
       (validateCategory ai parseV categoryId d)
   \<and> retry_law (ai (report_request jobState)) parseR
       (generateFinalJobReport ai parseR jobState)"
  unfolding processVoiceNote_def processTextNote_def validateCategory_def
    generateFinalJobReport_def
  by (intro conjI gateway_call_retry_law)

theorem gateway_retry_law_witness:
  "(let r = validateCategory busy_twice parse_complete finds (JObj [])
    in outcome r = Inr \<lparr> isComplete = True, missingInfo_res = [] \<rparr>
       \<and> attempts r = 3 \<and> delays r = [1000, 2000])
   \<and> (let r = validateCategory offline parse_complete finds (JObj [])
      in outcome r = Inl NetworkError \<and> attempts r = 1)"
proof -
  have law: "retry_law (ai (ValidateRequest finds (JObj []))) parse_complete
               (validateCategory ai parse_complete finds (JObj []))" for ai
    using gateway_retry_law [where ai = ai and categoryId = finds and d = "JObj []"
        and parseV = parse_complete]
    by blast
  have 1: "outcome (validateCategory busy_twice parse_complete finds (JObj []))
             = Inr \<lparr> isComplete = True, missingInfo_res = [] \<rparr>
           \<and> attempts (validateCategory busy_twice parse_complete finds (JObj [])) = 3
           \<and> delays (validateCategory busy_twice parse_complete finds (JObj []))
               = [1000, 2000]"
    using law [of busy_twice] isRateLimit_429
    unfolding retry_law_def
    by (simp add: busy_twice_def parse_complete_def)
  have 2: "outcome (validateCategory offline parse_complete finds (JObj []))
             = Inl NetworkError
           \<and> attempts (validateCategory offline parse_complete finds (JObj [])) = 1"
    using law [of offline] not_isRateLimit_fetch handleAIError_fetch
    unfolding retry_law_def
    by (auto simp add: offline_def dest!: spec [of _ 0])
  from 1 2 show ?thesis by (simp add: Let_def)
qed

section \<open>Frame of an update\<close>

text \<open>
  C10. \<open>handleUpdateCategory\<close> changes only the entry of the given category id: every
  other category keeps its state, and in the updated category every field that the
  partial update does not carry keeps its prior value.
\<close>

theorem handleUpdateCategory_frame:
  "(\<forall>j. j \<noteq> k \<longrightarrow>
        categories (handleUpdateCategory k u s) j = categories s j)
   \<and> (id_upd u = None \<longrightarrow>
        id_cat (categories (handleUpdateCategory k u s) k) = id_cat (categories s k))
   \<and> (title_upd u = None \<longrightarrow>
        title (categories (handleUpdateCategory k u s) k) = title (categories s k))
   \<and> (status_upd u = None \<longrightarrow>
        status (categories (handleUpdateCategory k u s) k) = status (categories s k))
   \<and> (notes_upd u = None \<longrightarrow>
        notes_cat (categories (handleUpdateCategory k u s) k) = notes_cat (categories s k))
   \<and> (data_upd u = None \<longrightarrow>
        data (categories (handleUpdateCategory k u s) k) = data (categories s k))
   \<and> (missingInfo_upd u = None \<longrightarrow>
        missingInfo (categories (handleUpdateCategory k u s) k)
          = missingInfo (categories s k))"
  by (simp add: handleUpdateCategory_def spread_def)

theorem handleUpdateCategory_frame_witness:
  "excavations \<noteq> finds
   \<and> categories (handleUpdateCategory finds (no_updates \<lparr> status_upd := Some complete \<rparr>)
        INITIAL_JOB_STATE) excavations
       = categories INITIAL_JOB_STATE excavations
   \<and> notes_upd (no_updates \<lparr> status_upd := Some complete \<rparr>) = None
   \<and> notes_cat (categories (handleUpdateCategory finds
        (no_updates \<lparr> status_upd := Some complete \<rparr>) INITIAL_JOB_STATE) finds)
       = notes_cat (categories INITIAL_JOB_STATE finds)"
  using handleUpdateCategory_frame [of finds "no_updates \<lparr> status_upd := Some complete \<rparr>"
      INITIAL_JOB_STATE]
  by (simp add: no_updates_def)

section \<open>Reachable states\<close>

declare toString.simps [simp del]

lemma categories_handleUpdateCategory:
  "categories (handleUpdateCategory k u s) j
     = (if j = k then spread (categories s k) u else categories s j)"
  by (simp add: handleUpdateCategory_def)

lemma isJobComplete_handleUpdateCategory:
  "isJobComplete (handleUpdateCategory k u s) = isJobComplete s"
  by (simp add: handleUpdateCategory_def)

lemma categories_addNote:
  "categories (addNote now1 now2 c t d s) j
     = (if j = id_cat c
        then (categories s j)
               \<lparr> status := in_progress,
                 notes_cat := notes_cat c
                    @ [\<lparr> id_note = toString now1, text_note = t, timestamp = now2 \<rparr>],
                 data := d \<rparr>
        else categories s j)"
  by (simp add: addNote_def categories_handleUpdateCategory spread_def no_updates_def)

lemma categories_handleDeleteNote:
  "categories (job (handleDeleteNote True noteId c s)) j
     = (if j = id_cat c
        then c \<lparr> notes_cat := filter (\<lambda>note. id_note note \<noteq> noteId) (notes_cat c),
                 status := (if filter (\<lambda>note. id_note note \<noteq> noteId) (notes_cat c) = []
                              \<and> status c \<noteq> complete
                            then not_started else status c) \<rparr>
        else categories s j)"
  by (simp add: handleDeleteNote_def categories_handleUpdateCategory spread_def Let_def)

lemma step_cases [consumes 1, case_names same append delete final_ok final_missing]:
  assumes "id_cat (categories s a) = a"
  obtains
    "step s a ev = s"
  | now1 now2 t d where "step s a ev = addNote now1 now2 (categories s a) t d s"
  | noteId where "step s a ev = job (handleDeleteNote True noteId (categories s a) s)"
  | "step s a ev
       = handleUpdateCategory a
           (no_updates \<lparr> status_upd := Some complete, missingInfo_upd := Some [] \<rparr>) s"
  | ai parse result where "ev = FinalizeClick ai parse"
      "outcome (validateCategory ai parse a (data (categories s a))) = Inr result"
      "\<not> isComplete result"
      "step s a ev
         = handleUpdateCategory a
             (no_updates \<lparr> missingInfo_upd := Some (missingInfo_res result) \<rparr>) s"
proof (cases ev)
  case (TextSubmit ai parse now1 now2 textInput)
  let ?r = "processTextNote ai parse textInput (id_cat (categories s a))
              (map text_note (notes_cat (categories s a))) (data (categories s a))"
  show ?thesis
  proof (cases "trim textInput = []")
    case True
    with TextSubmit have "step s a ev = s"
      by (simp add: step_def handleTextSubmit_def)
    then show ?thesis by (rule that(1))
  next
    case False
    show ?thesis
    proof (cases "outcome ?r")
      case (Inl e)
      with TextSubmit False have "step s a ev = s"
        by (simp add: step_def handleTextSubmit_def Let_def)
      then show ?thesis by (rule that(1))
    next
      case (Inr result)
      with TextSubmit False
      have "step s a ev
              = addNote now1 now2 (categories s a) (transcript result) (updatedData result) s"
        by (simp add: step_def handleTextSubmit_def Let_def)
      then show ?thesis by (rule that(2))
    qed
  qed
next
  case (AudioProcess ai parse now1 now2 base64 mimeType)
  let ?r = "processVoiceNote ai parse base64 mimeType (id_cat (categories s a))
              (map text_note (notes_cat (categories s a))) (data (categories s a))"
  show ?thesis
  proof (cases "outcome ?r")
    case (Inl e)
    with AudioProcess have "step s a ev = s"
      by (simp add: step_def handleAudioProcess_def Let_def)
    then show ?thesis by (rule that(1))
  next
    case (Inr result)
    show ?thesis
    proof (cases "transcript result = ''NO_SPEECH_DETECTED''")
      case True
      with AudioProcess Inr have "step s a ev = s"
        by (simp add: step_def handleAudioProcess_def Let_def)
      then show ?thesis by (rule that(1))
    next
      case False
      with AudioProcess Inr
      have "step s a ev
              = addNote now1 now2 (categories s a) (transcript result) (updatedData result) s"
        by (simp add: step_def handleAudioProcess_def Let_def)
      then show ?thesis by (rule that(2))
    qed
  qed
next
  case (DeleteNote confirmed noteId)
  show ?thesis
  proof (cases confirmed)
    case True
    with DeleteNote
    have "step s a ev = job (handleDeleteNote True noteId (categories s a) s)"
      by (simp add: step_def)
    then show ?thesis by (rule that(3))
  next
    case False
    with DeleteNote have "step s a ev = s"
      by (simp add: step_def handleDeleteNote_def)
    then show ?thesis by (rule that(1))
  qed
next
  case (FinalizeClick ai parse)
  let ?r = "validateCategory ai parse a (data (categories s a))"
  show ?thesis
  proof (cases "finalize_disabled (categories s a) False False")
    case True
    with FinalizeClick have "step s a ev = s"
      by (simp add: step_def click_finalize_def)
    then show ?thesis by (rule that(1))
  next
    case False
    show ?thesis
    proof (cases "outcome ?r")
      case (Inl e)
      with FinalizeClick False assms have "step s a ev = s"
        by (simp add: step_def click_finalize_def handleFinalize_def Let_def)
      then show ?thesis by (rule that(1))
    next
      case (Inr result)
      show ?thesis
      proof (cases "isComplete result")
        case True
        with FinalizeClick False Inr assms
        have "step s a ev
                = handleUpdateCategory a
                    (no_updates \<lparr> status_upd := Some complete, missingInfo_upd := Some [] \<rparr>) s"
          by (simp add: step_def click_finalize_def handleFinalize_def Let_def)
        then show ?thesis by (rule that(4))
      next
        case incomplete: False
        with FinalizeClick False Inr assms
        have "step s a ev
                = handleUpdateCategory a
                    (no_updates \<lparr> missingInfo_upd := Some (missingInfo_res result) \<rparr>) s"
          by (simp add: step_def click_finalize_def handleFinalize_def Let_def)
        with FinalizeClick Inr incomplete show ?thesis by (intro that(5)) 
      qed
    qed
  qed
qed

lemma ids_ok_step:
  assumes "ids_ok s"
  shows "ids_ok (step s a ev)"
proof -
  from assms have a: "id_cat (categories s a) = a" by (simp add: ids_ok_def)
  have "id_cat (categories (step s a ev) k) = k" for k
  proof -
    from assms have k: "id_cat (categories s k) = k" by (simp add: ids_ok_def)
    from a show ?thesis
    proof (cases rule: step_cases [where ev = ev])
      case same
      with k show ?thesis by simp
    next
      case (append now1 now2 t d)
      with k a show ?thesis by (simp add: categories_addNote)
    next
      case (delete noteId)
      with k a show ?thesis by (simp add: categories_handleDeleteNote)
    next
      case final_ok
      with k a show ?thesis
        by (simp add: categories_handleUpdateCategory spread_def no_updates_def)
    next
      case (final_missing ai parse result)
      with k a show ?thesis
        by (simp add: categories_handleUpdateCategory spread_def no_updates_def)
    qed
  qed
  then show ?thesis by (simp add: ids_ok_def)
qed

lemma ids_ok_initial: "ids_ok INITIAL_JOB_STATE"
  by (simp add: ids_ok_def INITIAL_JOB_STATE_def initial_category_def)

lemma reachable_ids_ok: "reachable s \<Longrightarrow> ids_ok s"
  by (induction rule: reachable.induct) (simp_all add: ids_ok_initial ids_ok_step)

lemma notes_match_status_append:
  "notes_match_status (c \<lparr> status := in_progress, notes_cat := xs @ [n], data := d \<rparr>)"
  by (simp add: notes_match_status_def)

lemma notes_match_status_delete:
  assumes "notes_match_status c"
  shows "notes_match_status
           (c \<lparr> notes_cat := filter P (notes_cat c),
                status := (if filter P (notes_cat c) = [] \<and> status c \<noteq> complete
                           then not_started else status c) \<rparr>)"
proof (cases "status c")
  case not_started
  with assms show ?thesis by (simp add: notes_match_status_def)
next
  case in_progress
  then show ?thesis by (simp add: notes_match_status_def)
next
  case complete
  then show ?thesis by (simp add: notes_match_status_def)
qed

lemma notes_match_status_finalize:
  "notes_match_status c \<Longrightarrow>
   notes_match_status (spread c (no_updates \<lparr> missingInfo_upd := Some m \<rparr>))"
  "notes_match_status
     (spread c (no_updates \<lparr> status_upd := Some complete, missingInfo_upd := Some [] \<rparr>))"
  by (simp_all add: notes_match_status_def spread_def no_updates_def)

lemma notes_match_status_step:
  assumes "ids_ok s" "\<forall>k. notes_match_status (categories s k)"
  shows "notes_match_status (categories (step s a ev) k)"
proof -
  from assms(1) have a: "id_cat (categories s a) = a" by (simp add: ids_ok_def)
  from assms(2) have k: "notes_match_status (categories s k)" by blast
  from assms(2) have ca: "notes_match_status (categories s a)" by blast
  from a show ?thesis
  proof (cases rule: step_cases [where ev = ev])
    case same
    with k show ?thesis by simp
  next
    case (append now1 now2 t d)
    show ?thesis
    proof (cases "k = a")
      case True
      then show ?thesis
        unfolding append categories_addNote a
        by (simp add: notes_match_status_append)
    next
      case False
      then show ?thesis
        unfolding append categories_addNote a using k by simp
    qed
  next
    case (delete noteId)
    show ?thesis
    proof (cases "k = a")
      case True
      then show ?thesis
        unfolding delete categories_handleDeleteNote a
        using notes_match_status_delete [OF ca] by simp
    next
      case False
      then show ?thesis
        unfolding delete categories_handleDeleteNote a using k by simp
    qed
  next
    case final_ok
    show ?thesis
      unfolding final_ok categories_handleUpdateCategory
      using k notes_match_status_finalize(2) by simp
  next
    case (final_missing ai parse result)
    show ?thesis
      unfolding final_missing(4) categories_handleUpdateCategory
      using k notes_match_status_finalize(1) [OF ca] by simp
  qed
qed

lemma reachable_notes_match_status:
  "reachable s \<Longrightarrow> notes_match_status (categories s k)"
proof (induction arbitrary: k rule: reachable.induct)
  case reachable_init
  show ?case
    by (simp add: notes_match_status_def INITIAL_JOB_STATE_def initial_category_def)
next
  case (reachable_step s a ev)
  from reachable_step.hyps have "ids_ok s"
    by (rule reachable_ids_ok)
  moreover from reachable_step.IH have "\<forall>j. notes_match_status (categories s j)"
    by blast
  ultimately show ?case
    by (rule notes_match_status_step)
qed

text \<open>
  C3, for the notes. In every job state reached from the initial state by the operations
  of the category view (adding a note by text or voice, deleting a note, finalizing), a
  category whose status is \<open>not_started\<close> has no notes. Its \<open>data\<close> need not be empty:
  deleting the last note resets the status and keeps the extracted data.
\<close>

theorem not_started_no_notes:
  "reachable s \<Longrightarrow> status (categories s k) = not_started \<Longrightarrow> notes_cat (categories s k) = []"
  using reachable_notes_match_status [of s k] by (simp add: notes_match_status_def)

section \<open>Evaluation of the stubs\<close>

lemma gateway_call_answering:
  "gateway_call (answering req) m parse
     = \<lparr> outcome = (case parse ''{}'' of Inl e \<Rightarrow> Inl (handleAIError e) | Inr v \<Rightarrow> Inr v),
         attempts = 1, delays = [] \<rparr>"
  by (simp add: gateway_call_def callWithRetry_def callWithRetry_from.simps [of _ 3 0]
      answering_def Let_def)

lemma toString_1000: "toString 1000 = ''1000''"
  by code_simp

lemma trim_flake: "trim ''Found one obsidian flake'' \<noteq> []"
  by (simp add: trim_def isWhiteSpace_def)

lemma categories_flake_noted:
  "categories flake_noted k
     = (if k = finds
        then \<lparr> id_cat = finds, title = ''Finds & Materials'', status = in_progress,
               notes_cat = [flake_note], data = flake_data, missingInfo = [] \<rparr>
        else categories INITIAL_JOB_STATE k)"
  by (simp add: flake_noted_def step_def handleTextSubmit_def trim_flake processTextNote_def
      gateway_call_answering parse_flake_def categories_addNote toString_1000
      INITIAL_JOB_STATE_def initial_category_def flake_note_def flake_data_def)

lemma categories_flake_deleted:
  "categories flake_deleted k
     = (if k = finds
        then \<lparr> id_cat = finds, title = ''Finds & Materials'', status = not_started,
               notes_cat = [], data = flake_data, missingInfo = [] \<rparr>
        else categories INITIAL_JOB_STATE k)"
  by (simp add: flake_deleted_def step_def categories_handleDeleteNote
      categories_flake_noted flake_note_def)

lemma reachable_flake_noted: "reachable flake_noted"
  unfolding flake_noted_def by (intro reachable_step reachable_init)

lemma reachable_flake_deleted: "reachable flake_deleted"
  unfolding flake_deleted_def by (intro reachable_step reachable_flake_noted)

text \<open>
  After one note on \<open>finds\<close> and its deletion the status is \<open>not_started\<close> again and
  \<open>data\<close> still holds what the extraction returned.
\<close>

theorem not_started_keeps_data_counterexample:
  "status (categories flake_deleted finds) = not_started
   \<and> data (categories flake_deleted finds) \<noteq> JObj []"
  by (simp add: categories_flake_deleted flake_data_def)

theorem not_started_no_notes_witness:
  "reachable flake_deleted
   \<and> status (categories flake_deleted finds) = not_started
   \<and> notes_cat (categories flake_deleted finds) = []"
proof -
  have st: "status (categories flake_deleted finds) = not_started"
    by (simp add: categories_flake_deleted)
  from not_started_no_notes [OF reachable_flake_deleted st] reachable_flake_deleted st
  show ?thesis by simp
qed

section \<open>Job completion\<close>

lemma required_all:
  "(\<forall>j. j \<noteq> additional_notes \<longrightarrow> P j)
   \<longleftrightarrow> P project_details \<and> P env_safety \<and> P survey_inventory \<and> P site_recording
       \<and> P excavations \<and> P finds \<and> P condition_followup"
proof
  assume "\<forall>j. j \<noteq> additional_notes \<longrightarrow> P j"
  then show "P project_details \<and> P env_safety \<and> P survey_inventory \<and> P site_recording
       \<and> P excavations \<and> P finds \<and> P condition_followup"
    by simp
next
  assume r: "P project_details \<and> P env_safety \<and> P survey_inventory \<and> P site_recording
       \<and> P excavations \<and> P finds \<and> P condition_followup"
  show "\<forall>j. j \<noteq> additional_notes \<longrightarrow> P j"
  proof (intro allI impI)
    fix j :: CategoryId
    assume "j \<noteq> additional_notes"
    with r show "P j" by (cases j) simp_all
  qed
qed

lemma allComplete_iff:
  assumes "ids_ok s"
  shows "allComplete s
         \<longleftrightarrow> (\<forall>j. j \<noteq> additional_notes \<longrightarrow> status (categories s j) = complete)"
proof -
  from assms have "id_cat (categories s j) = j" for j
    by (simp add: ids_ok_def)
  then have "allComplete s
      \<longleftrightarrow> status (categories s project_details) = complete
        \<and> status (categories s env_safety) = complete
        \<and> status (categories s survey_inventory) = complete
        \<and> status (categories s site_recording) = complete
        \<and> status (categories s excavations) = complete
        \<and> status (categories s finds) = complete
        \<and> status (categories s condition_followup) = complete"
    by (simp add: allComplete_def category_ids_def)
  then show ?thesis
    by (simp only: required_all [where P = "\<lambda>j. status (categories s j) = complete"])
qed

lemma ids_ok_update:
  "ids_ok s \<Longrightarrow> id_upd u = None \<Longrightarrow> ids_ok (handleUpdateCategory k u s)"
  by (simp add: ids_ok_def categories_handleUpdateCategory spread_def)

text \<open>
  C1, as the code has it. \<open>handleUpdateCategory\<close> does not recompute the stored attribute
  \<open>isJobComplete\<close>: it keeps its prior value. What mirrors completion is the value
  \<open>allComplete\<close> that the dashboard derives from the categories: on a job state whose
  categories carry their own ids (every reachable state, by \<open>reachable_ids_ok\<close>) it is true
  if and only if all seven required categories are \<open>complete\<close>, and after an update that
  sets the status of a required category to another value than \<open>complete\<close> it is false.
\<close>

theorem allComplete_mirrors_required:
  "isJobComplete (handleUpdateCategory k u s) = isJobComplete s
   \<and> (ids_ok s \<longrightarrow>
        (allComplete s
         \<longleftrightarrow> (\<forall>j. j \<noteq> additional_notes \<longrightarrow> status (categories s j) = complete)))
   \<and> (ids_ok s \<and> k \<noteq> additional_notes \<and> id_upd u = None \<and> status_upd u = Some st
        \<and> st \<noteq> complete
        \<longrightarrow> \<not> allComplete (handleUpdateCategory k u s))"
proof (intro conjI impI)
  show "isJobComplete (handleUpdateCategory k u s) = isJobComplete s"
    by (rule isJobComplete_handleUpdateCategory)
next
  assume "ids_ok s"
  then show "allComplete s
         \<longleftrightarrow> (\<forall>j. j \<noteq> additional_notes \<longrightarrow> status (categories s j) = complete)"
    by (rule allComplete_iff)
next
  assume h: "ids_ok s \<and> k \<noteq> additional_notes \<and> id_upd u = None \<and> status_upd u = Some st
        \<and> st \<noteq> complete"
  then have "ids_ok (handleUpdateCategory k u s)"
    by (simp add: ids_ok_update)
  moreover from h have "status (categories (handleUpdateCategory k u s) k) \<noteq> complete"
    by (simp add: categories_handleUpdateCategory spread_def)
  ultimately show "\<not> allComplete (handleUpdateCategory k u s)"
    using h by (auto simp: allComplete_iff)
qed

lemma categories_mark_complete:
  "categories (mark_complete k s) j
     = (if j = k then (categories s k) \<lparr> status := complete, missingInfo := [] \<rparr>
        else categories s j)"
  by (simp add: mark_complete_def categories_handleUpdateCategory spread_def no_updates_def)

lemma isJobComplete_mark_complete: "isJobComplete (mark_complete k s) = isJobComplete s"
  by (simp add: mark_complete_def isJobComplete_handleUpdateCategory)

lemma categories_required_done:
  "categories required_done k
     = (if k = additional_notes then categories INITIAL_JOB_STATE k
        else (categories INITIAL_JOB_STATE k) \<lparr> status := complete, missingInfo := [] \<rparr>)"
  by (cases k) (simp_all add: required_done_def categories_mark_complete)

lemma ids_ok_required_done: "ids_ok required_done"
  by (simp add: ids_ok_def categories_required_done INITIAL_JOB_STATE_def
      initial_category_def)

text \<open>
  With all seven required categories set to \<open>complete\<close> through \<open>handleUpdateCategory\<close>,
  the stored \<open>isJobComplete\<close> is still false.
\<close>

theorem isJobComplete_stale_counterexample:
  "status (categories required_done project_details) = complete
   \<and> status (categories required_done env_safety) = complete
   \<and> status (categories required_done survey_inventory) = complete
   \<and> status (categories required_done site_recording) = complete
   \<and> status (categories required_done excavations) = complete
   \<and> status (categories required_done finds) = complete
   \<and> status (categories required_done condition_followup) = complete
   \<and> \<not> isJobComplete required_done"
  by (simp add: categories_required_done)
     (simp add: required_done_def isJobComplete_mark_complete INITIAL_JOB_STATE_def)

theorem allComplete_mirrors_required_witness:
  "ids_ok required_done
   \<and> allComplete required_done
   \<and> finds \<noteq> additional_notes
   \<and> \<not> allComplete
        (handleUpdateCategory finds (no_updates \<lparr> status_upd := Some in_progress \<rparr>)
           required_done)"
proof -
  have all: "\<forall>j. j \<noteq> additional_notes \<longrightarrow> status (categories required_done j) = complete"
    by (simp add: categories_required_done)
  from allComplete_mirrors_required
         [of finds "no_updates \<lparr> status_upd := Some in_progress \<rparr>" required_done in_progress]
       ids_ok_required_done all
  show ?thesis
    by (simp add: no_updates_def)
qed

section \<open>Completion and missing information\<close>





lemma categories_flake_finalized:
  "categories flake_finalized k
     = (if k = finds
        then \<lparr> id_cat = finds, title = ''Finds & Materials'', status = complete,
               notes_cat = [flake_note], data = flake_data, missingInfo = [] \<rparr>
        else categories INITIAL_JOB_STATE k)"
  by (simp add: flake_finalized_def step_def click_finalize_def finalize_disabled_def
      handleFinalize_def validateCategory_def gateway_call_answering parse_complete_def
      categories_handleUpdateCategory spread_def no_updates_def categories_flake_noted)





section \<open>Appending a note\<close>

lemma toString_small: "n < 10 \<Longrightarrow> toString n = [digit_char n]"
  by (subst toString.simps) simp

lemma toString_large:
  "\<not> n < 10 \<Longrightarrow> toString n = toString (n div 10) @ [digit_char (n mod 10)]"
  by (subst toString.simps) simp

lemma toString_nonempty: "toString n \<noteq> []"
  by (cases "n < 10") (simp_all add: toString_small toString_large)

lemma digit_char_inj:
  assumes "a < 10" "b < 10" "digit_char a = digit_char b"
  shows "a = b"
proof -
  from assms(3) have "(of_char (digit_char a) :: nat) = of_char (digit_char b)"
    by simp
  with assms(1,2) show ?thesis
    by (simp add: digit_char_def)
qed

lemma toString_inj: "toString a = toString b \<Longrightarrow> a = b"
proof (induction a arbitrary: b rule: toString.induct)
  case (1 n)
  show ?case
  proof (cases "n < 10")
    case True
    with "1.prems" have eq: "toString b = [digit_char n]"
      by (simp add: toString_small)
    have b: "b < 10"
    proof (rule ccontr)
      assume "\<not> b < 10"
      with eq have "toString (b div 10) @ [digit_char (b mod 10)] = [digit_char n]"
        by (simp add: toString_large)
      then show False
        by (simp add: toString_nonempty)
    qed
    with eq have "digit_char b = digit_char n"
      by (simp add: toString_small)
    with b True show ?thesis
      by (auto dest: digit_char_inj)
  next
    case False
    with "1.prems"
    have eq: "toString b = toString (n div 10) @ [digit_char (n mod 10)]"
      by (simp add: toString_large)
    have b: "\<not> b < 10"
    proof
      assume "b < 10"
      with eq have "[digit_char b] = toString (n div 10) @ [digit_char (n mod 10)]"
        by (simp add: toString_small)
      then have "toString (n div 10) = []"
        by simp
      then show False
        by (simp add: toString_nonempty)
    qed
    with eq have "toString (b div 10) @ [digit_char (b mod 10)]
                    = toString (n div 10) @ [digit_char (n mod 10)]"
      by (simp add: toString_large)
    then have hd: "toString (n div 10) = toString (b div 10)"
      and lst: "digit_char (n mod 10) = digit_char (b mod 10)"
      by simp_all
    from "1.IH" [OF False hd] have "n div 10 = b div 10" .
    moreover from lst have "n mod 10 = b mod 10"
      by (rule digit_char_inj [rotated 2]) simp_all
    ultimately show ?thesis
      by (metis div_mult_mod_eq)
  qed
qed

text \<open>
  C5, as the code has it. \<open>addNote\<close> builds a note whose id is the decimal string of one
  clock reading and whose timestamp is a second clock reading, puts it at the end of the
  notes of the category (the earlier notes unchanged and in order), replaces \<open>data\<close> by
  the extracted data and sets the status to \<open>in_progress\<close>, whatever the status was. The
  id is fresh when the ids of the notes already there are the decimal strings of earlier
  clock readings.
\<close>

theorem addNote_appends:
  "(let c' = categories (addNote now1 now2 category t d s) (id_cat category)
    in notes_cat c'
         = notes_cat category @ [\<lparr> id_note = toString now1, text_note = t, timestamp = now2 \<rparr>]
       \<and> data c' = d
       \<and> status c' = in_progress)
   \<and> ((\<forall>n \<in> set (notes_cat category). \<exists>t0 < now1. id_note n = toString t0)
        \<longrightarrow> toString now1 \<notin> set (map id_note (notes_cat category)))"
proof (intro conjI impI)
  show "let c' = categories (addNote now1 now2 category t d s) (id_cat category)
    in notes_cat c'
         = notes_cat category @ [\<lparr> id_note = toString now1, text_note = t, timestamp = now2 \<rparr>]
       \<and> data c' = d
       \<and> status c' = in_progress"
    by (simp add: categories_addNote)
next
  assume earlier: "\<forall>n \<in> set (notes_cat category). \<exists>t0 < now1. id_note n = toString t0"
  show "toString now1 \<notin> set (map id_note (notes_cat category))"
  proof
    assume "toString now1 \<in> set (map id_note (notes_cat category))"
    then obtain n where n: "n \<in> set (notes_cat category)" "id_note n = toString now1"
      by auto
    with earlier obtain t0 where "t0 < now1" "id_note n = toString t0"
      by blast
    with n(2) have "toString t0 = toString now1" by simp
    then have "t0 = now1" by (rule toString_inj)
    with \<open>t0 < now1\<close> show False by simp
  qed
qed

lemma toString_2000: "toString 2000 = ''2000''"
  by code_simp

lemma trim_second: "trim ''Second note'' \<noteq> []"
  by (simp add: trim_def isWhiteSpace_def)

lemma categories_flake_noted_twice:
  "categories flake_noted_twice finds
     = \<lparr> id_cat = finds, title = ''Finds & Materials'', status = in_progress,
         notes_cat = [flake_note, flake_note], data = flake_data, missingInfo = [] \<rparr>"
  by (simp add: flake_noted_twice_def step_def handleTextSubmit_def trim_second
      processTextNote_def gateway_call_answering parse_flake_def categories_addNote
      toString_1000 categories_flake_noted flake_note_def flake_data_def)

text \<open>
  Two notes added at the same clock reading carry the same id.
\<close>

theorem addNote_id_reused_counterexample:
  "map id_note (notes_cat (categories flake_noted finds)) = [''1000'']
   \<and> map id_note (notes_cat (categories flake_noted_twice finds)) = [''1000'', ''1000'']"
  by (simp add: categories_flake_noted categories_flake_noted_twice flake_note_def)

theorem addNote_appends_witness:
  "notes_cat (categories flake_noted finds) = [flake_note]
   \<and> id_note flake_note = toString 1000
   \<and> (1000 :: nat) < 2000
   \<and> toString 2000 \<notin> set (map id_note (notes_cat (categories flake_noted finds)))
   \<and> notes_cat (categories (addNote 2000 2001 (categories flake_noted finds)
                     ''Second note'' (JObj []) flake_noted) finds)
       = [flake_note,
          \<lparr> id_note = ''2000'', text_note = ''Second note'', timestamp = 2001 \<rparr>]"
proof -
  have ns: "notes_cat (categories flake_noted finds) = [flake_note]"
    by (simp add: categories_flake_noted)
  have i: "id_note flake_note = toString 1000"
    by (simp add: flake_note_def toString_1000)
  have "(1000 :: nat) < 2000 \<and> id_note flake_note = toString 1000"
    using i by simp
  then have "\<exists>t0 < 2000. id_note flake_note = toString t0"
    by (rule exI)
  with ns
  have earlier: "\<forall>n \<in> set (notes_cat (categories flake_noted finds)).
      \<exists>t0 < 2000. id_note n = toString t0"
    by simp
  from addNote_appends [of 2000 2001 "categories flake_noted finds" "''Second note''"
         "JObj []" flake_noted] earlier
  have "toString 2000 \<notin> set (map id_note (notes_cat (categories flake_noted finds)))
        \<and> notes_cat (categories (addNote 2000 2001 (categories flake_noted finds)
                     ''Second note'' (JObj []) flake_noted) finds)
            = [flake_note,
               \<lparr> id_note = ''2000'', text_note = ''Second note'', timestamp = 2001 \<rparr>]"
    by (simp add: Let_def categories_flake_noted toString_2000)
  with ns i show ?thesis
    by simp
qed

section \<open>Removing a note\<close>

text \<open>
  C6. When the category holds exactly one note, deleting that note empties the list and
  leaves a \<open>complete\<close> category \<open>complete\<close>, and sets any other status to \<open>not_started\<close>.
  No deletion, of any id, confirmed or not, takes a \<open>complete\<close> category to another
  status.
\<close>

theorem remove_last_note:
  assumes "id_cat (categories s a) = a"
  shows "(notes_cat (categories s a) = [n] \<longrightarrow>
            (let c' = categories (step s a (DeleteNote True (id_note n))) a
             in notes_cat c' = []
                \<and> (status (categories s a) = complete \<longrightarrow> status c' = complete)
                \<and> (status (categories s a) \<noteq> complete \<longrightarrow> status c' = not_started)))
         \<and> (status (categories s k) = complete \<longrightarrow>
              status (categories (step s a (DeleteNote confirmed noteId)) k) = complete)"
proof (intro conjI impI)
  assume "notes_cat (categories s a) = [n]"
  then show "let c' = categories (step s a (DeleteNote True (id_note n))) a
             in notes_cat c' = []
                \<and> (status (categories s a) = complete \<longrightarrow> status c' = complete)
                \<and> (status (categories s a) \<noteq> complete \<longrightarrow> status c' = not_started)"
    using assms by (simp add: step_def categories_handleDeleteNote)
next
  assume k: "status (categories s k) = complete"
  show "status (categories (step s a (DeleteNote confirmed noteId)) k) = complete"
  proof (cases confirmed)
    case True
    have "status (categories (job (handleDeleteNote True noteId (categories s a) s)) k)
            = complete"
      using k assms by (auto simp add: categories_handleDeleteNote)
    with True show ?thesis
      by (simp add: step_def)
  next
    case False
    with k show ?thesis
      by (simp add: step_def handleDeleteNote_def)
  qed
qed

theorem remove_last_note_witness:
  "id_cat (categories flake_noted finds) = finds
   \<and> notes_cat (categories flake_noted finds) = [flake_note]
   \<and> status (categories flake_noted finds) = in_progress
   \<and> status (categories (step flake_noted finds (DeleteNote True ''1000'')) finds)
       = not_started
   \<and> id_cat (categories flake_finalized finds) = finds
   \<and> notes_cat (categories flake_finalized finds) = [flake_note]
   \<and> status (categories flake_finalized finds) = complete
   \<and> status (categories (step flake_finalized finds (DeleteNote True ''1000'')) finds)
       = complete"
proof -
  have 1: "id_cat (categories flake_noted finds) = finds"
    and 2: "notes_cat (categories flake_noted finds) = [flake_note]"
    and 3: "status (categories flake_noted finds) = in_progress"
    by (simp_all add: categories_flake_noted)
  have 4: "id_cat (categories flake_finalized finds) = finds"
    and 5: "notes_cat (categories flake_finalized finds) = [flake_note]"
    and 6: "status (categories flake_finalized finds) = complete"
    by (simp_all add: categories_flake_finalized)
  have i: "id_note flake_note = ''1000''"
    by (simp add: flake_note_def)
  from remove_last_note [OF 1, of flake_note finds True "''1000''"] 2 3 i
  have "status (categories (step flake_noted finds (DeleteNote True ''1000'')) finds)
          = not_started"
    by (simp add: Let_def)
  moreover from remove_last_note [OF 4, of flake_note finds True "''1000''"] 5 6 i
  have "status (categories (step flake_finalized finds (DeleteNote True ''1000'')) finds)
          = complete"
    by (simp add: Let_def)
  ultimately show ?thesis
    using 1 2 3 4 5 6 by simp
qed

lemma spread_all:
  "k = id_cat c \<Longrightarrow>
   spread c \<lparr> id_upd = Some k, title_upd = Some (title c),
              status_upd = Some (status c), notes_upd = Some (notes_cat c),
              data_upd = Some (data c), missingInfo_upd = Some (missingInfo c) \<rparr> = c"
  by (simp add: spread_def)

lemma filter_unknown_id:
  "noteId \<notin> set (map id_note xs) \<Longrightarrow> filter (\<lambda>note. id_note note \<noteq> noteId) xs = xs"
  by (induction xs) auto

text \<open>
  C9, as the code has it. Deleting with an id that no note of the category carries raises
  no error and no dialog: it is silent. The notes, the data and \<open>missingInfo\<close> of the
  category are unchanged, and the whole job state is unchanged unless the category is
  \<open>in_progress\<close> with an empty note list (which no reachable state has, by
  \<open>reachable_notes_match_status\<close>).
\<close>

theorem remove_unknown_id:
  assumes "id_cat (categories s a) = a"
    and "noteId \<notin> set (map id_note (notes_cat (categories s a)))"
  shows "alert (handle (DeleteNote confirmed noteId) (categories s a) s) = None
         \<and> notes_cat (categories (step s a (DeleteNote confirmed noteId)) a)
             = notes_cat (categories s a)
         \<and> data (categories (step s a (DeleteNote confirmed noteId)) a)
             = data (categories s a)
         \<and> missingInfo (categories (step s a (DeleteNote confirmed noteId)) a)
             = missingInfo (categories s a)
         \<and> ((status (categories s a) = in_progress \<longrightarrow> notes_cat (categories s a) \<noteq> [])
              \<longrightarrow> step s a (DeleteNote confirmed noteId) = s)"
proof (cases confirmed)
  case False
  then show ?thesis
    by (simp add: step_def handleDeleteNote_def)
next
  case True
  let ?c = "categories s a"
  have f: "filter (\<lambda>note. id_note note \<noteq> noteId) (notes_cat ?c) = notes_cat ?c"
    using assms(2) by (rule filter_unknown_id)
  have cat: "categories (step s a (DeleteNote True noteId)) a
               = ?c \<lparr> status := (if notes_cat ?c = [] \<and> status ?c \<noteq> complete
                                  then not_started else status ?c) \<rparr>"
    using assms(1) by (simp add: step_def categories_handleDeleteNote f)
  have same: "step s a (DeleteNote True noteId) = s"
    if "status ?c = in_progress \<longrightarrow> notes_cat ?c \<noteq> []"
  proof -
    have "(if notes_cat ?c = [] \<and> status ?c \<noteq> complete then not_started else status ?c)
            = status ?c"
      using that by (cases "status ?c") simp_all
    then show ?thesis
      using assms(1)
      by (simp add: step_def handleDeleteNote_def f handleUpdateCategory_def spread_all)
  qed
  have "alert (handle (DeleteNote True noteId) ?c s) = None"
    by (simp add: handleDeleteNote_def Let_def)
  with True cat same show ?thesis
    by simp
qed

text \<open>
  The deletion of an unknown id reports nothing; and on a category that is \<open>in_progress\<close>
  with no notes it changes the status to \<open>not_started\<close>.
\<close>

theorem remove_unknown_id_counterexample:
  "alert (handleDeleteNote True ''missing'' (categories flake_noted finds) flake_noted) = None
   \<and> status (categories stalled finds) = in_progress
   \<and> notes_cat (categories stalled finds) = []
   \<and> status (categories (job (handleDeleteNote True ''missing'' (categories stalled finds)
         stalled)) finds) = not_started"
  by (simp add: handleDeleteNote_def Let_def stalled_def categories_handleUpdateCategory
      spread_def no_updates_def INITIAL_JOB_STATE_def initial_category_def)

theorem remove_unknown_id_witness:
  "id_cat (categories flake_noted finds) = finds
   \<and> ''missing'' \<notin> set (map id_note (notes_cat (categories flake_noted finds)))
   \<and> notes_cat (categories flake_noted finds) \<noteq> []
   \<and> alert (handle (DeleteNote True ''missing'') (categories flake_noted finds) flake_noted)
       = None
   \<and> step flake_noted finds (DeleteNote True ''missing'') = flake_noted"
proof -
  have 1: "id_cat (categories flake_noted finds) = finds"
    by (simp add: categories_flake_noted)
  have 2: "''missing'' \<notin> set (map id_note (notes_cat (categories flake_noted finds)))"
    by (simp add: categories_flake_noted flake_note_def)
  have 3: "notes_cat (categories flake_noted finds) \<noteq> []"
    by (simp add: categories_flake_noted)
  from remove_unknown_id [OF 1 2, of True] 1 2 3 show ?thesis
    by simp
qed

section \<open>Finalizing\<close>

text \<open>
  C7, as the code has it. For a required category with no notes the Finalize button is
  disabled: a click calls no validation, raises no error and leaves the job state as it
  is. For \<open>additional_notes\<close> with no notes the button is enabled, and when the
  validation reports completion the category becomes \<open>complete\<close> with an empty
  \<open>missingInfo\<close>.
\<close>

theorem finalize_empty_gate:
  "(id_cat category \<noteq> additional_notes \<and> notes_cat category = []
      \<longrightarrow> click_finalize ai parse isProcessing isValidating category s
            = \<lparr> job = s, alert = None, calls = 0 \<rparr>)
   \<and> (id_cat category = additional_notes \<and> notes_cat category = []
       \<and> outcome (validateCategory ai parse additional_notes (data category)) = Inr result
       \<and> isComplete result
      \<longrightarrow> (let r = click_finalize ai parse False False category s
           in alert r = None
              \<and> status (categories (job r) additional_notes) = complete
              \<and> missingInfo (categories (job r) additional_notes) = []))"
  by (simp add: click_finalize_def finalize_disabled_def handleFinalize_def Let_def
      categories_handleUpdateCategory spread_def no_updates_def)

text \<open>
  \<open>handleFinalize\<close> itself has no guard: run on the required category \<open>finds\<close> with no
  notes it calls the validation once, raises nothing and completes the category. The
  click on the disabled button raises nothing either.
\<close>

theorem finalize_unguarded_counterexample:
  "id_cat (categories INITIAL_JOB_STATE finds) = finds
   \<and> notes_cat (categories INITIAL_JOB_STATE finds) = []
   \<and> calls (handleFinalize answering parse_complete (categories INITIAL_JOB_STATE finds)
         INITIAL_JOB_STATE) = 1
   \<and> alert (handleFinalize answering parse_complete (categories INITIAL_JOB_STATE finds)
         INITIAL_JOB_STATE) = None
   \<and> status (categories (job (handleFinalize answering parse_complete
         (categories INITIAL_JOB_STATE finds) INITIAL_JOB_STATE)) finds) = complete
   \<and> alert (click_finalize answering parse_complete False False
         (categories INITIAL_JOB_STATE finds) INITIAL_JOB_STATE) = None"
  by (simp add: click_finalize_def finalize_disabled_def handleFinalize_def
      validateCategory_def gateway_call_answering parse_complete_def
      categories_handleUpdateCategory spread_def no_updates_def INITIAL_JOB_STATE_def
      initial_category_def)

theorem finalize_empty_gate_witness:
  "id_cat (categories INITIAL_JOB_STATE finds) \<noteq> additional_notes
   \<and> notes_cat (categories INITIAL_JOB_STATE finds) = []
   \<and> click_finalize answering parse_complete False False
        (categories INITIAL_JOB_STATE finds) INITIAL_JOB_STATE
       = \<lparr> job = INITIAL_JOB_STATE, alert = None, calls = 0 \<rparr>
   \<and> id_cat (categories INITIAL_JOB_STATE additional_notes) = additional_notes
   \<and> notes_cat (categories INITIAL_JOB_STATE additional_notes) = []
   \<and> outcome (validateCategory answering parse_complete additional_notes
         (data (categories INITIAL_JOB_STATE additional_notes)))
       = Inr \<lparr> isComplete = True, missingInfo_res = [] \<rparr>
   \<and> status (categories (job (click_finalize answering parse_complete False False
         (categories INITIAL_JOB_STATE additional_notes) INITIAL_JOB_STATE))
         additional_notes) = complete"
proof -
  have 1: "id_cat (categories INITIAL_JOB_STATE k) = k"
    and 2: "notes_cat (categories INITIAL_JOB_STATE k) = []" for k
    by (simp_all add: INITIAL_JOB_STATE_def initial_category_def)
  have 3: "outcome (validateCategory answering parse_complete additional_notes
             (data (categories INITIAL_JOB_STATE additional_notes)))
           = Inr \<lparr> isComplete = True, missingInfo_res = [] \<rparr>"
    by (simp add: validateCategory_def gateway_call_answering parse_complete_def)
  from finalize_empty_gate
         [where category = "categories INITIAL_JOB_STATE finds" and ai = answering
            and parse = parse_complete and isProcessing = False and isValidating = False
            and s = INITIAL_JOB_STATE]
  have "click_finalize answering parse_complete False False
          (categories INITIAL_JOB_STATE finds) INITIAL_JOB_STATE
        = \<lparr> job = INITIAL_JOB_STATE, alert = None, calls = 0 \<rparr>"
    by (simp add: 1 2)
  moreover from finalize_empty_gate
         [where category = "categories INITIAL_JOB_STATE additional_notes"
            and ai = answering and parse = parse_complete
            and result = "\<lparr> isComplete = True, missingInfo_res = [] \<rparr>"
            and s = INITIAL_JOB_STATE] 3
  have "status (categories (job (click_finalize answering parse_complete False False
         (categories INITIAL_JOB_STATE additional_notes) INITIAL_JOB_STATE))
         additional_notes) = complete"
    by (simp add: 1 2 Let_def)
  ultimately show ?thesis
    using 3 by (simp add: 1 2)
qed

section \<open>Note input\<close>

text \<open>
  C8, as the code has it. Voice input: when the extraction returns the transcript
  \<open>NO_SPEECH_DETECTED\<close>, no note is created and the job state is unchanged; for every
  other successful extraction a note is created and the status becomes \<open>in_progress\<close>.
  Text input: every successful extraction creates a note and sets the status to
  \<open>in_progress\<close>, whatever the transcript is; a blank text is dropped before any call to
  the backend, with the job state unchanged.
\<close>

theorem note_input_outcomes:
  "(outcome (processVoiceNote ai parse base64 mimeType (id_cat category)
       (map text_note (notes_cat category)) (data category)) = Inr result
      \<longrightarrow> (let r = handleAudioProcess ai parse now1 now2 base64 mimeType category s
           in (transcript result = ''NO_SPEECH_DETECTED''
                 \<longrightarrow> job r = s \<and> alert r = Some NoSpeechDetected)
              \<and> (transcript result \<noteq> ''NO_SPEECH_DETECTED''
                 \<longrightarrow> job r = addNote now1 now2 category (transcript result)
                               (updatedData result) s
                    \<and> status (categories (job r) (id_cat category)) = in_progress
                    \<and> length (notes_cat (categories (job r) (id_cat category)))
                        = length (notes_cat category) + 1)))
   \<and> (trim textInput \<noteq> []
       \<and> outcome (processTextNote ai parse textInput (id_cat category)
            (map text_note (notes_cat category)) (data category)) = Inr result
      \<longrightarrow> (let r = handleTextSubmit ai parse now1 now2 textInput category s
           in job r = addNote now1 now2 category (transcript result) (updatedData result) s
              \<and> status (categories (job r) (id_cat category)) = in_progress
              \<and> length (notes_cat (categories (job r) (id_cat category)))
                  = length (notes_cat category) + 1))
   \<and> (trim textInput = []
      \<longrightarrow> handleTextSubmit ai parse now1 now2 textInput category s
            = \<lparr> job = s, alert = None, calls = 0 \<rparr>)"
  by (simp add: handleAudioProcess_def handleTextSubmit_def Let_def categories_addNote)

lemma trim_sentinel: "trim ''NO_SPEECH_DETECTED'' \<noteq> []"
  by (simp add: trim_def isWhiteSpace_def)

text \<open>A text of no-break spaces alone is blank, as it is for \<open>trim\<close> in the source.\<close>

lemma trim_no_break_space: "trim [CHR 0xA0, CHR 0x20, CHR 0xA0] = []"
  by (simp add: trim_def isWhiteSpace_def)

lemma handleTextSubmit_no_break_space:
  "handleTextSubmit ai parse now1 now2 [CHR 0xA0, CHR 0x20, CHR 0xA0] category s
     = \<lparr> job = s, alert = None, calls = 0 \<rparr>"
  by (simp add: handleTextSubmit_def trim_no_break_space)

text \<open>
  On the text path an extraction result with the transcript \<open>NO_SPEECH_DETECTED\<close> creates
  a note.
\<close>

theorem text_sentinel_noted_counterexample:
  "outcome (processTextNote answering parse_silence ''NO_SPEECH_DETECTED'' finds [] (JObj []))
     = Inr \<lparr> transcript = ''NO_SPEECH_DETECTED'', updatedData = JObj [] \<rparr>
   \<and> notes_cat (categories (job (handleTextSubmit answering parse_silence 1000 1000
         ''NO_SPEECH_DETECTED'' (categories INITIAL_JOB_STATE finds) INITIAL_JOB_STATE)) finds)
       = [\<lparr> id_note = ''1000'', text_note = ''NO_SPEECH_DETECTED'', timestamp = 1000 \<rparr>]
   \<and> status (categories (job (handleTextSubmit answering parse_silence 1000 1000
         ''NO_SPEECH_DETECTED'' (categories INITIAL_JOB_STATE finds) INITIAL_JOB_STATE)) finds)
       = in_progress"
  by (simp add: handleTextSubmit_def trim_sentinel processTextNote_def
      gateway_call_answering parse_silence_def categories_addNote toString_1000
      INITIAL_JOB_STATE_def initial_category_def)

theorem note_input_outcomes_witness:
  "outcome (processVoiceNote answering parse_silence ''UklGRg=='' ''audio/webm''
       (id_cat (categories INITIAL_JOB_STATE finds))
       (map text_note (notes_cat (categories INITIAL_JOB_STATE finds)))
       (data (categories INITIAL_JOB_STATE finds)))
     = Inr \<lparr> transcript = ''NO_SPEECH_DETECTED'', updatedData = JObj [] \<rparr>
   \<and> job (handleAudioProcess answering parse_silence 1000 1000 ''UklGRg=='' ''audio/webm''
         (categories INITIAL_JOB_STATE finds) INITIAL_JOB_STATE) = INITIAL_JOB_STATE
   \<and> outcome (processVoiceNote answering parse_flake ''UklGRg=='' ''audio/webm''
       (id_cat (categories INITIAL_JOB_STATE finds))
       (map text_note (notes_cat (categories INITIAL_JOB_STATE finds)))
       (data (categories INITIAL_JOB_STATE finds)))
     = Inr \<lparr> transcript = ''Found one obsidian flake'', updatedData = flake_data \<rparr>
   \<and> status (categories (job (handleAudioProcess answering parse_flake 1000 1000
         ''UklGRg=='' ''audio/webm'' (categories INITIAL_JOB_STATE finds) INITIAL_JOB_STATE))
         (id_cat (categories INITIAL_JOB_STATE finds))) = in_progress
   \<and> trim ''Found one obsidian flake'' \<noteq> []
   \<and> outcome (processTextNote answering parse_flake ''Found one obsidian flake''
       (id_cat (categories INITIAL_JOB_STATE finds))
       (map text_note (notes_cat (categories INITIAL_JOB_STATE finds)))
       (data (categories INITIAL_JOB_STATE finds)))
     = Inr \<lparr> transcript = ''Found one obsidian flake'', updatedData = flake_data \<rparr>
   \<and> status (categories (job (handleTextSubmit answering parse_flake 1000 1000
         ''Found one obsidian flake'' (categories INITIAL_JOB_STATE finds)
         INITIAL_JOB_STATE))
         (id_cat (categories INITIAL_JOB_STATE finds))) = in_progress
   \<and> trim ''  '' = []
   \<and> handleTextSubmit answering parse_flake 1000 1000 ''  ''
        (categories INITIAL_JOB_STATE finds) INITIAL_JOB_STATE
       = \<lparr> job = INITIAL_JOB_STATE, alert = None, calls = 0 \<rparr>"
proof -
  let ?c = "categories INITIAL_JOB_STATE finds"
  have v1: "outcome (processVoiceNote answering parse_silence ''UklGRg=='' ''audio/webm''
       (id_cat ?c) (map text_note (notes_cat ?c)) (data ?c))
     = Inr \<lparr> transcript = ''NO_SPEECH_DETECTED'', updatedData = JObj [] \<rparr>"
    by (simp add: processVoiceNote_def gateway_call_answering parse_silence_def)
  have v2: "outcome (processVoiceNote answering parse_flake ''UklGRg=='' ''audio/webm''
       (id_cat ?c) (map text_note (notes_cat ?c)) (data ?c))
     = Inr \<lparr> transcript = ''Found one obsidian flake'', updatedData = flake_data \<rparr>"
    by (simp add: processVoiceNote_def gateway_call_answering parse_flake_def flake_data_def)
  have t1: "outcome (processTextNote answering parse_flake ''Found one obsidian flake''
       (id_cat ?c) (map text_note (notes_cat ?c)) (data ?c))
     = Inr \<lparr> transcript = ''Found one obsidian flake'', updatedData = flake_data \<rparr>"
    by (simp add: processTextNote_def gateway_call_answering parse_flake_def flake_data_def)
  have b: "trim ''  '' = []"
    by (simp add: trim_def isWhiteSpace_def)
  from note_input_outcomes
         [where ai = answering and parse = parse_silence and ?base64.0 = "''UklGRg==''"
            and mimeType = "''audio/webm''" and category = ?c
            and result = "\<lparr> transcript = ''NO_SPEECH_DETECTED'', updatedData = JObj [] \<rparr>"
            and ?now1.0 = 1000 and ?now2.0 = 1000 and s = INITIAL_JOB_STATE] v1
  have a1: "job (handleAudioProcess answering parse_silence 1000 1000 ''UklGRg==''
                ''audio/webm'' ?c INITIAL_JOB_STATE) = INITIAL_JOB_STATE"
    by (simp add: Let_def)
  from note_input_outcomes
         [where ai = answering and parse = parse_flake and ?base64.0 = "''UklGRg==''"
            and mimeType = "''audio/webm''" and category = ?c
            and result = "\<lparr> transcript = ''Found one obsidian flake'',
                             updatedData = flake_data \<rparr>"
            and ?now1.0 = 1000 and ?now2.0 = 1000 and s = INITIAL_JOB_STATE
            and textInput = "''Found one obsidian flake''"] v2 t1 trim_flake
  have a2: "status (categories (job (handleAudioProcess answering parse_flake 1000 1000
         ''UklGRg=='' ''audio/webm'' ?c INITIAL_JOB_STATE)) (id_cat ?c)) = in_progress"
    and a3: "status (categories (job (handleTextSubmit answering parse_flake 1000 1000
         ''Found one obsidian flake'' ?c INITIAL_JOB_STATE)) (id_cat ?c)) = in_progress"
    by (simp_all add: Let_def categories_addNote)
  from note_input_outcomes
         [where ai = answering and parse = parse_flake and category = ?c and ?now1.0 = 1000
            and ?now2.0 = 1000 and s = INITIAL_JOB_STATE and textInput = "''  ''"] b
  have a4: "handleTextSubmit answering parse_flake 1000 1000 ''  '' ?c INITIAL_JOB_STATE
       = \<lparr> job = INITIAL_JOB_STATE, alert = None, calls = 0 \<rparr>"
    by simp
  from v1 v2 t1 b a1 a2 a3 a4 trim_flake show ?thesis
    by simp
qed

end
